theory Spec2Isabelle
  imports Main
begin

section \<open>Values the session works with\<close>

text \<open>
  The result of \<^verbatim>\<open>parseInt\<close>: a number or \<^verbatim>\<open>NaN\<close>. Durations and instants are
  milliseconds, modelled as integers (the precision limit of doubles beyond \<open>2^53\<close> is
  not modelled).
\<close>

datatype num = NaN | Num int

text \<open>
  A user-supplied action (\<^verbatim>\<open>onContinue\<close>, \<^verbatim>\<open>onLogout\<close>, \<^verbatim>\<open>onTimeout\<close>): a falsy
  value that the guard \<^verbatim>\<open>if (onX) onX()\<close> skips, a function that returns, or a function
  that throws.
\<close>

datatype callback = Absent | Returns | Throws

datatype timer_kind = Warn | Redirect

record timer =
  tid :: nat
  due :: int
  kind :: timer_kind

text \<open>Calls into the host and into user code, in the order they happen.\<close>

datatype event =
    CallOnContinue
  | CallOnLogout
  | CallOnTimeout
  | ShowModal
  | DialogClosed
  | SetItem string string
  | SetTimeout nat int timer_kind
  | ClearTimeout nat
  | AddListener
  | RemoveListener

record options =
  warnAt :: int
  timeoutAt :: int
  onTimeout :: callback
  onContinue :: callback
  onLogout :: callback

text \<open>What \<^verbatim>\<open>typeof window\<close>, \<^verbatim>\<open>typeof addEventListener\<close> and
  \<^verbatim>\<open>typeof removeEventListener\<close> report.\<close>

record host =
  has_window :: bool
  has_addEventListener :: bool
  has_removeEventListener :: bool

text \<open>
  The host's part of the state (\<open>clock\<close> is \<^verbatim>\<open>Date.now()\<close>; \<open>localStorage\<close> is
  \<open>None\<close> when \<^verbatim>\<open>typeof localStorage\<close> is undefined; \<open>timers\<close> are the pending
  timers of this session in the order they were set; \<open>next_id\<close> is the handle the next
  \<^verbatim>\<open>setTimeout\<close> returns; \<open>listening\<close> says that the window holds the storage
  listener) and the variables of the closure (\<open>dialog\<close> is \<^verbatim>\<open>dialog !== null\<close>,
  \<open>storageEventListener\<close> likewise).
\<close>

record state =
  clock :: int
  localStorage :: "(string \<rightharpoonup> string) option"
  timers :: "timer list"
  next_id :: nat
  listening :: bool
  trace :: "event list"
  warnTimeoutId :: "nat option"
  redirectTimeoutId :: "nat option"
  dialog :: bool
  storageEventListener :: bool

text \<open>A call that may throw: the state it leaves, and whether an exception escapes.\<close>

datatype outcome = Normal state | Uncaught state

fun settle :: "outcome \<Rightarrow> state" where
  "settle (Normal s) = s"
| "settle (Uncaught s) = s"

definition storageKey :: string where
  "storageKey = ''session-timeout-last-reset''"

section \<open>Number to string and back\<close>

definition is_space :: "char \<Rightarrow> bool" where
  "is_space c = (of_char c \<in> {9, 10, 11, 12, 13, 32 :: nat})"

definition is_digit :: "char \<Rightarrow> bool" where
  "is_digit c = (48 \<le> (of_char c :: nat) \<and> (of_char c :: nat) \<le> 57)"

definition digit_val :: "char \<Rightarrow> nat" where
  "digit_val c = of_char c - 48"

definition digit_char :: "nat \<Rightarrow> char" where
  "digit_char d = char_of (48 + d)"

fun toDigits :: "nat \<Rightarrow> string" where
  "toDigits n = (if n < 10 then [digit_char n] else toDigits (n div 10) @ [digit_char (n mod 10)])"

declare toDigits.simps [simp del]

text \<open>\<^verbatim>\<open>timestamp.toString()\<close> for an integer: decimal digits, with a minus sign
  for a negative number (the exponent form of numbers from \<open>10^21\<close> on is not modelled).\<close>

definition toString :: "int \<Rightarrow> string" where
  "toString n = (if n < 0 then CHR ''-'' # toDigits (nat (- n)) else toDigits (nat n))"

definition digits_value :: "string \<Rightarrow> nat" where
  "digits_value ds = foldl (\<lambda>a c. 10 * a + digit_val c) 0 ds"

text \<open>
  \<^verbatim>\<open>parseInt(str, 10)\<close>: leading white space is skipped, one sign is read, then the
  longest run of decimal digits; no digit gives \<^verbatim>\<open>NaN\<close>. Characters are bytes here,
  so of the white space of JavaScript only the ASCII characters are recognised.
\<close>

definition parseInt :: "string \<Rightarrow> num" where
  "parseInt str =
     (let body = dropWhile is_space str;
          neg = (case body of c # _ \<Rightarrow> c = CHR ''-'' | [] \<Rightarrow> False);
          unsigned = (case body of c # cs \<Rightarrow> if c = CHR ''-'' \<or> c = CHR ''+'' then cs else body
                      | [] \<Rightarrow> []);
          ds = takeWhile is_digit unsigned
      in if ds = [] then NaN
         else Num (if neg then - int (digits_value ds) else int (digits_value ds)))"

section \<open>The host: timers, the dialog, the store\<close>

text \<open>
  The delay of \<^verbatim>\<open>setTimeout\<close> is a 32-bit signed integer to the host: the number is
  converted modulo \<open>2^32\<close> into the range from \<open>-2^31\<close> to \<open>2^31 - 1\<close>, and a negative
  result counts as 0. A delay below \<open>2^31\<close> ms (about 24.8 days) is kept as it is; a delay
  of \<open>2^31\<close> ms becomes negative, so that the timer is due at once. The session hands its
  durations to the host unchanged but for the clamp at 0.
\<close>

definition toInt32 :: "int \<Rightarrow> int" where
  "toInt32 d = (d + 2147483648) mod 4294967296 - 2147483648"

definition host_delay :: "int \<Rightarrow> int" where
  "host_delay d = max 0 (toInt32 d)"

text \<open>\<^verbatim>\<open>setTimeout(f, delay)\<close>: the handle it returns and the state with the timer pending.\<close>

definition setTimeout :: "timer_kind \<Rightarrow> int \<Rightarrow> state \<Rightarrow> nat \<times> state" where
  "setTimeout k delay s =
     (next_id s,
      s\<lparr>timers := timers s @ [\<lparr>tid = next_id s, due = clock s + host_delay delay, kind = k\<rparr>],
        next_id := Suc (next_id s),
        trace := trace s @ [SetTimeout (next_id s) delay k]\<rparr>)"

definition clearTimeout :: "nat \<Rightarrow> state \<Rightarrow> state" where
  "clearTimeout i s =
     s\<lparr>timers := filter (\<lambda>t. tid t \<noteq> i) (timers s), trace := trace s @ [ClearTimeout i]\<rparr>"

definition closeDialog :: "state \<Rightarrow> state" where
  "closeDialog s = (if dialog s then s\<lparr>dialog := False, trace := trace s @ [DialogClosed]\<rparr> else s)"

definition showDialog :: "state \<Rightarrow> state" where
  "showDialog s = s\<lparr>dialog := True, trace := trace s @ [ShowModal]\<rparr>"

text \<open>\<^verbatim>\<open>if (cb) cb()\<close>.\<close>

fun invoke :: "callback \<Rightarrow> event \<Rightarrow> state \<Rightarrow> outcome" where
  "invoke Absent e s = Normal s"
| "invoke Returns e s = Normal (s\<lparr>trace := trace s @ [e]\<rparr>)"
| "invoke Throws e s = Uncaught (s\<lparr>trace := trace s @ [e]\<rparr>)"

definition handleTimeout :: "options \<Rightarrow> state \<Rightarrow> outcome" where
  "handleTimeout cfg s = invoke (onTimeout cfg) CallOnTimeout (closeDialog s)"

definition updateLastResetTime :: "state \<Rightarrow> state" where
  "updateLastResetTime s =
     (case localStorage s of
        None \<Rightarrow> s
      | Some m \<Rightarrow>
          s\<lparr>localStorage := Some (m(storageKey \<mapsto> toString (clock s))),
            trace := trace s @ [SetItem storageKey (toString (clock s))]\<rparr>)"

text \<open>The result is \<open>None\<close> for \<^verbatim>\<open>null\<close>.\<close>

definition getLastResetTime :: "state \<Rightarrow> num option" where
  "getLastResetTime s =
     (case localStorage s of
        None \<Rightarrow> None
      | Some m \<Rightarrow>
          (case m storageKey of
             None \<Rightarrow> None
           | Some stored \<Rightarrow> if stored \<noteq> [] then Some (parseInt stored) else None))"

text \<open>The blocks \<^verbatim>\<open>if (warnTimeoutId) { clearTimeout(warnTimeoutId); warnTimeoutId = null; }\<close>
  of \<^verbatim>\<open>startTimers\<close> and \<^verbatim>\<open>destroy\<close>; the handle \<open>0\<close> is falsy.\<close>

definition clearWarn :: "state \<Rightarrow> state" where
  "clearWarn s =
     (case warnTimeoutId s of
        None \<Rightarrow> s
      | Some i \<Rightarrow> if i \<noteq> 0 then (clearTimeout i s)\<lparr>warnTimeoutId := None\<rparr> else s)"

definition clearRedirect :: "state \<Rightarrow> state" where
  "clearRedirect s =
     (case redirectTimeoutId s of
        None \<Rightarrow> s
      | Some i \<Rightarrow> if i \<noteq> 0 then (clearTimeout i s)\<lparr>redirectTimeoutId := None\<rparr> else s)"

definition armWarn :: "int \<Rightarrow> state \<Rightarrow> state" where
  "armWarn delay s = (case setTimeout Warn delay s of (i, s') \<Rightarrow> s'\<lparr>warnTimeoutId := Some i\<rparr>)"

definition armRedirect :: "int \<Rightarrow> state \<Rightarrow> state" where
  "armRedirect delay s =
     (case setTimeout Redirect delay s of (i, s') \<Rightarrow> s'\<lparr>redirectTimeoutId := Some i\<rparr>)"

definition startTimers :: "options \<Rightarrow> state \<Rightarrow> state" where
  "startTimers cfg s =
     (let actualWarnAt = max 0 (warnAt cfg);
          actualTimeoutAt = max 0 (timeoutAt cfg)
      in armRedirect actualTimeoutAt (armWarn actualWarnAt (clearRedirect (clearWarn s))))"

definition handleContinue :: "options \<Rightarrow> state \<Rightarrow> outcome" where
  "handleContinue cfg s =
     (case invoke (onContinue cfg) CallOnContinue s of
        Uncaught s' \<Rightarrow> Uncaught s'
      | Normal s' \<Rightarrow> Normal (startTimers cfg (updateLastResetTime (closeDialog s'))))"

definition handleLogout :: "options \<Rightarrow> state \<Rightarrow> outcome" where
  "handleLogout cfg s =
     (case invoke (onLogout cfg) CallOnLogout s of
        Uncaught s' \<Rightarrow> Uncaught s'
      | Normal s' \<Rightarrow> Normal (closeDialog s'))"

record storage_event =
  key :: "string option"
  newValue :: "string option"

text \<open>The subtraction and the comparisons of \<^verbatim>\<open>handleStorageChange\<close>; every comparison
  with \<^verbatim>\<open>NaN\<close> is false.\<close>

fun since :: "int \<Rightarrow> num \<Rightarrow> num" where
  "since now NaN = NaN"
| "since now (Num t) = Num (now - t)"

fun num_ge :: "num \<Rightarrow> int \<Rightarrow> bool" where
  "num_ge NaN b = False"
| "num_ge (Num a) b = (a \<ge> b)"

fun num_lt :: "num \<Rightarrow> int \<Rightarrow> bool" where
  "num_lt NaN b = False"
| "num_lt (Num a) b = (a < b)"

definition handleStorageChange :: "options \<Rightarrow> storage_event \<Rightarrow> state \<Rightarrow> state" where
  "handleStorageChange cfg ev s =
     (case newValue ev of
        None \<Rightarrow> s
      | Some v \<Rightarrow>
          if key ev = Some storageKey \<and> v \<noteq> [] then
            (let newResetTime = parseInt v;
                 currentTime = clock s;
                 timeSinceReset = since currentTime newResetTime
             in if num_ge timeSinceReset (warnAt cfg) then showDialog (closeDialog s)
                else if num_lt timeSinceReset (min (warnAt cfg) (timeoutAt cfg))
                then startTimers cfg (closeDialog s)
                else s)
          else s)"

definition setupStorageListener :: "host \<Rightarrow> state \<Rightarrow> state" where
  "setupStorageListener h s =
     (if has_window h \<and> has_addEventListener h
      then s\<lparr>storageEventListener := True, listening := True, trace := trace s @ [AddListener]\<rparr>
      else s)"




text \<open>The closure's variables as \<^verbatim>\<open>sessionTimeout\<close> declares them, in a host whose clock
  reads \<open>now\<close>, whose store is \<open>ls\<close> and whose next timer handle is \<open>nid\<close>.\<close>

definition new_session :: "int \<Rightarrow> (string \<rightharpoonup> string) option \<Rightarrow> nat \<Rightarrow> state" where
  "new_session now ls nid =
     \<lparr>clock = now, localStorage = ls, timers = [], next_id = nid, listening = False,
      trace = [], warnTimeoutId = None, redirectTimeoutId = None, dialog = False,
      storageEventListener = False\<rparr>"

text \<open>The branch of the activation that arms the timers with the remaining delays.\<close>

definition adjustTimers :: "options \<Rightarrow> int \<Rightarrow> state \<Rightarrow> state" where
  "adjustTimers cfg timeSinceReset s =
     (let remainingWarnTime = max 0 (warnAt cfg - timeSinceReset);
          remainingTimeoutTime = max 0 (timeoutAt cfg - timeSinceReset);
          s1 = (if remainingWarnTime > 0 then armWarn remainingWarnTime s else s)
      in if remainingTimeoutTime > 0 then armRedirect remainingTimeoutTime s1 else s1)"

text \<open>The body of \<^verbatim>\<open>sessionTimeout\<close> after the declarations: the listener, the write of
  the present instant, the read of the stored instant and the three-way branch.
  \<^verbatim>\<open>if (lastResetTime)\<close> is false for \<^verbatim>\<open>null\<close>, \<^verbatim>\<open>NaN\<close> and \<open>0\<close>.\<close>

definition activate :: "options \<Rightarrow> host \<Rightarrow> state \<Rightarrow> state" where
  "activate cfg h s0 =
     (let s = updateLastResetTime (setupStorageListener h s0)
      in case getLastResetTime s of
           Some (Num lastResetTime) \<Rightarrow>
             if lastResetTime \<noteq> 0 then
               (let timeSinceReset = clock s - lastResetTime;
                    minTimeout = min (warnAt cfg) (timeoutAt cfg)
                in if timeSinceReset \<ge> warnAt cfg then showDialog s
                   else if timeSinceReset < minTimeout then adjustTimers cfg timeSinceReset s
                   else startTimers cfg s)
             else startTimers cfg s
         | _ \<Rightarrow> startTimers cfg s)"

definition sessionTimeout ::
    "options \<Rightarrow> host \<Rightarrow> int \<Rightarrow> (string \<rightharpoonup> string) option \<Rightarrow> nat \<Rightarrow> state" where
  "sessionTimeout cfg h now ls nid = activate cfg h (new_session now ls nid)"

section \<open>The event loop\<close>

text \<open>The pending timer that fires next: the least due time, the one set first among equals.\<close>

fun earliest :: "timer list \<Rightarrow> timer option" where
  "earliest [] = None"
| "earliest (t # ts) =
     (case earliest ts of
        None \<Rightarrow> Some t
      | Some u \<Rightarrow> if due u < due t then Some u else Some t)"

text \<open>The callbacks given to \<^verbatim>\<open>setTimeout\<close>; an exception of \<^verbatim>\<open>onTimeout\<close> ends the
  callback and is reported by the host.\<close>

definition fire :: "options \<Rightarrow> timer_kind \<Rightarrow> state \<Rightarrow> state" where
  "fire cfg k s = (case k of Warn \<Rightarrow> showDialog s | Redirect \<Rightarrow> settle (handleTimeout cfg s))"

text \<open>Run every pending timer that is due at \<open>target\<close>, in the host's order; the clock
  reads the due time while the callback runs.\<close>

function run_timers :: "options \<Rightarrow> int \<Rightarrow> state \<Rightarrow> state" where
  "run_timers cfg target s =
     (case earliest (timers s) of
        None \<Rightarrow> s
      | Some t \<Rightarrow>
          if due t \<le> target
          then run_timers cfg target
                 (fire cfg (kind t)
                    (s\<lparr>timers := filter (\<lambda>u. tid u \<noteq> tid t) (timers s),
                       clock := max (clock s) (due t)\<rparr>))
          else s)"
  by pat_completeness auto
termination
proof (relation "measure (\<lambda>(cfg, target, s). length (timers s))")
  show "wf (measure (\<lambda>(cfg, target, s). length (timers s)))" by simp
next
  fix cfg :: options and target :: int and s :: state and t :: timer
  assume e: "earliest (timers s) = Some t"
  have mem: "earliest ts = Some u \<Longrightarrow> u \<in> set ts" for ts u
    by (induction ts arbitrary: u) (auto split: option.splits if_splits)
  have same: "timers (fire cfg k s') = timers s'" for k s'
    by (cases k; cases "onTimeout cfg")
       (simp_all add: fire_def showDialog_def handleTimeout_def closeDialog_def)
  have "t \<in> set (timers s)" using e by (rule mem)
  then have "length (filter (\<lambda>u. tid u \<noteq> tid t) (timers s)) < length (timers s)"
    by (intro length_filter_less[of t]) simp_all
  then show "((cfg, target,
               fire cfg (kind t)
                 (s\<lparr>timers := filter (\<lambda>u. tid u \<noteq> tid t) (timers s),
                    clock := max (clock s) (due t)\<rparr>)),
              (cfg, target, s)) \<in> measure (\<lambda>(cfg, target, s). length (timers s))"
    by (simp add: same)
qed

declare run_timers.simps [simp del]

definition advance :: "options \<Rightarrow> nat \<Rightarrow> state \<Rightarrow> state" where
  "advance cfg n s = (run_timers cfg (clock s + int n) s)\<lparr>clock := clock s + int n\<rparr>"




section \<open>Pending timers and the handles that record them\<close>

definition pending :: "timer_kind \<Rightarrow> state \<Rightarrow> timer list" where
  "pending k s = filter (\<lambda>t. kind t = k) (timers s)"

text \<open>
  Every pending timer is recorded in the handle variable of its kind, handles are
  positive (so the guards \<^verbatim>\<open>if (warnTimeoutId)\<close> see them) and were issued by the host,
  and a listener held by the window is held by the closure as well.
\<close>

definition tracked :: "state \<Rightarrow> bool" where
  "tracked s =
     (0 < next_id s \<and> distinct (map tid (timers s)) \<and>
      (\<forall>t \<in> set (timers s).
         0 < tid t \<and> tid t < next_id s \<and>
         (if kind t = Warn then warnTimeoutId s = Some (tid t)
          else redirectTimeoutId s = Some (tid t))) \<and>
      (listening s \<longrightarrow> storageEventListener s))"


section \<open>A concrete session\<close>

definition demo_options :: options where
  "demo_options =
     \<lparr>warnAt = 100, timeoutAt = 200, onTimeout = Returns, onContinue = Returns,
      onLogout = Returns\<rparr>"

definition demo_host :: host where
  "demo_host = \<lparr>has_window = True, has_addEventListener = True, has_removeEventListener = True\<rparr>"

text \<open>Activated at instant 1000 in a host without \<^verbatim>\<open>localStorage\<close>.\<close>

definition demo_session :: state where
  "demo_session = sessionTimeout demo_options demo_host 1000 None 1"

text \<open>The same session 60 ms later, both timers still pending.\<close>

definition demo_waiting :: state where
  "demo_waiting = advance demo_options 60 demo_session"

text \<open>The same session 150 ms after its activation: the dialog is shown, the timeout is
  still pending.\<close>

definition demo_warning :: state where
  "demo_warning = advance demo_options 150 demo_session"

text \<open>A store in which another tab recorded a reset at instant 950, and one whose value
  is not a number.\<close>

definition recent_store :: "string \<rightharpoonup> string" where
  "recent_store = [storageKey \<mapsto> ''950'']"

definition malformed_store :: "string \<rightharpoonup> string" where
  "malformed_store = [storageKey \<mapsto> ''abc'']"

text \<open>The options of the concrete session with the warning due at once.\<close>

definition zero_warn_options :: options where
  "zero_warn_options = demo_options\<lparr>warnAt := 0\<rparr>"

text \<open>The options of the concrete session with both durations at \<open>2^31\<close> ms.\<close>

definition long_options :: options where
  "long_options = demo_options\<lparr>warnAt := 2147483648, timeoutAt := 2147483648\<rparr>"

text \<open>The options of the concrete session with user actions that throw.\<close>

definition throwing_options :: options where
  "throwing_options =
     demo_options\<lparr>onTimeout := Throws, onContinue := Throws, onLogout := Throws\<rparr>"

section \<open>\<^verbatim>\<open>parseInt\<close> reads back what \<^verbatim>\<open>toString\<close> wrote\<close>

lemma digit_char_digit: "d < 10 \<Longrightarrow> is_digit (digit_char d)"
  by (simp add: is_digit_def digit_char_def)

lemma digit_val_char: "d < 10 \<Longrightarrow> digit_val (digit_char d) = d"
  by (simp add: digit_val_def digit_char_def)

lemma toDigits_digits: "\<forall>c \<in> set (toDigits n). is_digit c"
proof (induction n rule: toDigits.induct)
  case (1 n)
  show ?case
  proof (cases "n < 10")
    case True
    then show ?thesis by (subst toDigits.simps) (simp add: digit_char_digit)
  next
    case False
    then show ?thesis using 1 by (subst toDigits.simps) (simp add: digit_char_digit)
  qed
qed

lemma toDigits_ne: "toDigits n \<noteq> []"
  by (subst toDigits.simps) simp

lemma digits_value_snoc: "digits_value (ds @ [c]) = 10 * digits_value ds + digit_val c"
  by (simp add: digits_value_def)

lemma digits_value_toDigits: "digits_value (toDigits n) = n"
proof (induction n rule: toDigits.induct)
  case (1 n)
  show ?case
  proof (cases "n < 10")
    case True
    then show ?thesis by (subst toDigits.simps) (simp add: digits_value_def digit_val_char)
  next
    case False
    then show ?thesis using 1
      by (subst toDigits.simps) (simp add: digits_value_snoc digit_val_char)
  qed
qed

lemma digit_not_space: "is_digit c \<Longrightarrow> \<not> is_space c"
  by (auto simp: is_digit_def is_space_def)

lemma digit_not_sign: "is_digit c \<Longrightarrow> c \<noteq> CHR ''-'' \<and> c \<noteq> CHR ''+''"
  by (auto simp: is_digit_def)

lemma parseInt_digits:
  assumes "\<forall>x \<in> set ds. is_digit x" and "ds \<noteq> []"
  shows "parseInt ds = Num (int (digits_value ds))"
proof -
  obtain c cs where eq: "ds = c # cs" using assms(2) by (cases ds) auto
  have c: "is_digit c" and cs: "takeWhile is_digit cs = cs"
    using assms(1) eq by (simp_all add: takeWhile_eq_all_conv)
  show ?thesis
    unfolding eq parseInt_def using digit_not_space[OF c] digit_not_sign[OF c]
    by (simp add: Let_def c cs)
qed

lemma parseInt_minus_digits:
  assumes "\<forall>x \<in> set ds. is_digit x" and "ds \<noteq> []"
  shows "parseInt (CHR ''-'' # ds) = Num (- int (digits_value ds))"
proof -
  have tw: "takeWhile is_digit ds = ds"
    using assms(1) by (simp add: takeWhile_eq_all_conv)
  have sp: "\<not> is_space CHR ''-''" by (simp add: is_space_def)
  show ?thesis
    unfolding parseInt_def using assms(2) by (simp add: Let_def tw sp)
qed

lemma parseInt_toString: "parseInt (toString n) = Num n"
proof (cases "n < 0")
  case False
  then show ?thesis
    by (simp add: toString_def parseInt_digits toDigits_digits toDigits_ne digits_value_toDigits)
next
  case True
  then show ?thesis
    by (simp add: toString_def parseInt_minus_digits toDigits_digits toDigits_ne
        digits_value_toDigits)
qed

lemma toString_ne: "toString n \<noteq> []"
  by (simp add: toString_def toDigits_ne)

lemma parseInt_Nil: "parseInt [] = NaN"
  by (simp add: parseInt_def)


section \<open>Starting the timers\<close>

lemma timers_fire: "timers (fire cfg k s) = timers s"
  by (cases k; cases "onTimeout cfg")
     (simp_all add: fire_def showDialog_def handleTimeout_def closeDialog_def)

lemma host_delay_small: "0 \<le> d \<Longrightarrow> d < 2147483648 \<Longrightarrow> host_delay d = d"
  by (simp add: host_delay_def toInt32_def)

lemma host_delay_clamped: "w < 2147483648 \<Longrightarrow> host_delay (max 0 w) = max 0 w"
  by (rule host_delay_small) simp_all

lemma host_delay_wraps: "host_delay 2147483648 = 0"
  by (simp add: host_delay_def toInt32_def)

lemma tracked_clearWarn:
  assumes "tracked s"
  shows "tracked (clearWarn s)" and "pending Warn (clearWarn s) = []"
  using assms
  by (auto simp: tracked_def clearWarn_def clearTimeout_def pending_def distinct_map_filter
      filter_empty_conv split: option.splits if_splits)

lemma tracked_clearRedirect:
  assumes "tracked s"
  shows "tracked (clearRedirect s)" and "pending Redirect (clearRedirect s) = []"
    and "pending Warn s = [] \<Longrightarrow> pending Warn (clearRedirect s) = []"
  using assms
  by (auto simp: tracked_def clearRedirect_def clearTimeout_def pending_def distinct_map_filter
      filter_empty_conv split: option.splits if_splits)

lemma no_pending_timers:
  assumes "pending Warn s = []" and "pending Redirect s = []"
  shows "timers s = []"
proof (cases "timers s")
  case Nil
  then show ?thesis .
next
  case (Cons t ts)
  then have "t \<in> set (timers s)" by simp
  then show ?thesis using assms by (cases "kind t") (auto simp: pending_def filter_empty_conv)
qed

lemma timers_cleared:
  assumes "tracked s"
  shows "timers (clearRedirect (clearWarn s)) = []"
  using assms
  by (intro no_pending_timers tracked_clearRedirect tracked_clearWarn)

lemma cleared_frame:
  "clock (clearRedirect (clearWarn s)) = clock s"
  "next_id (clearRedirect (clearWarn s)) = next_id s"
  "dialog (clearRedirect (clearWarn s)) = dialog s"
  "localStorage (clearRedirect (clearWarn s)) = localStorage s"
  "listening (clearRedirect (clearWarn s)) = listening s"
  "storageEventListener (clearRedirect (clearWarn s)) = storageEventListener s"
  by (simp_all add: clearRedirect_def clearWarn_def clearTimeout_def split: option.splits)

lemma timers_startTimers:
  assumes "tracked s"
  shows "timers (startTimers cfg s) =
           [\<lparr>tid = next_id s, due = clock s + host_delay (max 0 (warnAt cfg)), kind = Warn\<rparr>,
            \<lparr>tid = Suc (next_id s), due = clock s + host_delay (max 0 (timeoutAt cfg)),
             kind = Redirect\<rparr>]"
  using timers_cleared[OF assms] cleared_frame(1,2)[of s]
  by (simp add: startTimers_def armWarn_def armRedirect_def setTimeout_def host_delay_def toInt32_def Let_def)

lemma handles_startTimers:
  "warnTimeoutId (startTimers cfg s) = Some (next_id s)"
  "redirectTimeoutId (startTimers cfg s) = Some (Suc (next_id s))"
  "next_id (startTimers cfg s) = Suc (Suc (next_id s))"
  "clock (startTimers cfg s) = clock s"
  "dialog (startTimers cfg s) = dialog s"
  "localStorage (startTimers cfg s) = localStorage s"
  "listening (startTimers cfg s) = listening s"
  "storageEventListener (startTimers cfg s) = storageEventListener s"
  using cleared_frame[of s]
  by (simp_all add: startTimers_def armWarn_def armRedirect_def setTimeout_def host_delay_def toInt32_def Let_def)

lemma tracked_startTimers:
  assumes "tracked s"
  shows "tracked (startTimers cfg s)"
  using assms timers_startTimers[OF assms, of cfg] handles_startTimers[of cfg s]
  by (simp add: tracked_def)

section \<open>The handles record every pending timer, in every reachable state\<close>

lemma tracked_showDialog: "tracked (showDialog s) = tracked s"
  by (simp add: tracked_def showDialog_def)

lemma tracked_closeDialog: "tracked (closeDialog s) = tracked s"
  by (simp add: tracked_def closeDialog_def)

lemma tracked_updateLastResetTime: "tracked (updateLastResetTime s) = tracked s"
  by (simp add: tracked_def updateLastResetTime_def split: option.splits)

lemma tracked_invoke: "tracked (settle (invoke cb e s)) = tracked s"
  by (cases cb) (simp_all add: tracked_def)

lemma tracked_fire: "tracked (fire cfg k s) = tracked s"
  by (cases k) (simp_all add: fire_def handleTimeout_def tracked_showDialog tracked_invoke
      tracked_closeDialog)







lemma tracked_trace: "tracked (s\<lparr>trace := tr\<rparr>) = tracked s"
  by (simp add: tracked_def)

lemma tracked_handleContinue: "tracked s \<Longrightarrow> tracked (settle (handleContinue cfg s))"
  by (cases "onContinue cfg")
     (simp_all add: handleContinue_def tracked_startTimers tracked_updateLastResetTime
       tracked_closeDialog tracked_trace)

lemma tracked_handleLogout: "tracked s \<Longrightarrow> tracked (settle (handleLogout cfg s))"
  by (cases "onLogout cfg") (simp_all add: handleLogout_def tracked_closeDialog tracked_trace)










lemma tracked_new_session: "0 < nid \<Longrightarrow> tracked (new_session now ls nid)"
  by (simp add: tracked_def new_session_def)

lemma tracked_setupStorageListener: "tracked s \<Longrightarrow> tracked (setupStorageListener h s)"
  by (simp add: tracked_def setupStorageListener_def)

lemma timers_prelude:
  "timers (updateLastResetTime (setupStorageListener h s)) = timers s"
  by (simp add: updateLastResetTime_def setupStorageListener_def split: option.splits)



section \<open>Running the pending timers\<close>

lemma run_timers_none: "earliest (timers s) = None \<Longrightarrow> run_timers cfg target s = s"
  by (subst run_timers.simps) simp

lemma run_timers_idle: "timers s = [] \<Longrightarrow> run_timers cfg target s = s"
  by (simp add: run_timers_none)

lemma run_timers_wait:
  "earliest (timers s) = Some t \<Longrightarrow> target < due t \<Longrightarrow> run_timers cfg target s = s"
  by (subst run_timers.simps) simp

lemma run_timers_fire:
  "earliest (timers s) = Some t \<Longrightarrow> due t \<le> target \<Longrightarrow>
   run_timers cfg target s =
     run_timers cfg target
       (fire cfg (kind t)
          (s\<lparr>timers := filter (\<lambda>u. tid u \<noteq> tid t) (timers s), clock := max (clock s) (due t)\<rparr>))"
  by (subst run_timers.simps) simp













lemma cycle_run:
  assumes "timers s = [w, r]" and "kind w = Warn" and "kind r = Redirect"
    and "due w \<le> due r" and "tid w \<noteq> tid r"
  shows "target < due w \<Longrightarrow> run_timers cfg target s = s"
    and "due w \<le> target \<Longrightarrow> target < due r \<Longrightarrow>
         run_timers cfg target s =
           showDialog (s\<lparr>timers := [r], clock := max (clock s) (due w)\<rparr>)"
    and "due r \<le> target \<Longrightarrow>
         run_timers cfg target s =
           settle (handleTimeout cfg
             ((showDialog (s\<lparr>timers := [r], clock := max (clock s) (due w)\<rparr>))
                \<lparr>timers := [], clock := max (max (clock s) (due w)) (due r)\<rparr>))"
proof -
  have e: "earliest (timers s) = Some w" using assms(1,4) by simp
  let ?s1 = "showDialog (s\<lparr>timers := [r], clock := max (clock s) (due w)\<rparr>)"
  have f: "fire cfg (kind w)
             (s\<lparr>timers := filter (\<lambda>u. tid u \<noteq> tid w) (timers s),
                clock := max (clock s) (due w)\<rparr>) = ?s1"
    using assms(1,2,5) by (simp add: fire_def)
  have e1: "earliest (timers ?s1) = Some r" by (simp add: showDialog_def)
  show "target < due w \<Longrightarrow> run_timers cfg target s = s"
    using e by (rule run_timers_wait)
  show "due w \<le> target \<Longrightarrow> target < due r \<Longrightarrow> run_timers cfg target s = ?s1"
    using run_timers_fire[OF e, of target cfg] run_timers_wait[OF e1, of target cfg] f
    by simp
  show "due r \<le> target \<Longrightarrow>
         run_timers cfg target s =
           settle (handleTimeout cfg
             (?s1\<lparr>timers := [], clock := max (max (clock s) (due w)) (due r)\<rparr>))"
  proof -
    assume a: "due r \<le> target"
    let ?s2 = "settle (handleTimeout cfg
             (?s1\<lparr>timers := [], clock := max (max (clock s) (due w)) (due r)\<rparr>))"
    have f2: "fire cfg (kind r)
                (?s1\<lparr>timers := filter (\<lambda>u. tid u \<noteq> tid r) (timers ?s1),
                     clock := max (clock ?s1) (due r)\<rparr>) = ?s2"
      using assms(3) by (simp add: fire_def showDialog_def)
    have "timers ?s2 = []"
      using timers_fire[of cfg Redirect] by (simp add: fire_def)
    then have "run_timers cfg target ?s2 = ?s2" by (rule run_timers_idle)
    then show ?thesis
      using run_timers_fire[OF e, of target cfg] run_timers_fire[OF e1 a, of cfg] f f2 a assms(4)
      by simp
  qed
qed

lemma trace_handleTimeout:
  "trace (settle (handleTimeout cfg s)) =
     trace s @ (if dialog s then [DialogClosed] else []) @
     (if onTimeout cfg = Absent then [] else [CallOnTimeout])"
  by (cases "onTimeout cfg") (simp_all add: handleTimeout_def closeDialog_def)

lemma dialog_handleTimeout: "\<not> dialog (settle (handleTimeout cfg s))"
  by (cases "onTimeout cfg") (simp_all add: handleTimeout_def closeDialog_def)

section \<open>The decisions of the user\<close>

lemma timers_handleContinue:
  assumes "tracked s" and "onContinue cfg \<noteq> Throws"
  shows "timers (settle (handleContinue cfg s)) =
           [\<lparr>tid = next_id s, due = clock s + host_delay (max 0 (warnAt cfg)), kind = Warn\<rparr>,
            \<lparr>tid = Suc (next_id s), due = clock s + host_delay (max 0 (timeoutAt cfg)),
             kind = Redirect\<rparr>]"
    and "\<not> dialog (settle (handleContinue cfg s))"
proof -
  let ?a = "settle (invoke (onContinue cfg) CallOnContinue s)"
  let ?p = "updateLastResetTime (closeDialog ?a)"
  have eq: "settle (handleContinue cfg s) = startTimers cfg ?p"
    using assms(2) by (cases "onContinue cfg") (simp_all add: handleContinue_def)
  have tr: "tracked ?p"
    using assms(1) by (simp add: tracked_updateLastResetTime tracked_closeDialog tracked_invoke)
  have fr: "next_id ?p = next_id s" "clock ?p = clock s" "\<not> dialog ?p"
    by (cases "onContinue cfg";
        simp add: updateLastResetTime_def closeDialog_def split: option.splits)+
  show "timers (settle (handleContinue cfg s)) =
           [\<lparr>tid = next_id s, due = clock s + host_delay (max 0 (warnAt cfg)), kind = Warn\<rparr>,
            \<lparr>tid = Suc (next_id s), due = clock s + host_delay (max 0 (timeoutAt cfg)),
             kind = Redirect\<rparr>]"
    unfolding eq using timers_startTimers[OF tr, of cfg] fr by simp
  show "\<not> dialog (settle (handleContinue cfg s))"
    unfolding eq using fr by (simp add: handles_startTimers)
qed

lemma handleLogout_frame:
  assumes "onLogout cfg \<noteq> Throws"
  shows "\<not> dialog (settle (handleLogout cfg s))"
    and "timers (settle (handleLogout cfg s)) = timers s"
    and "warnTimeoutId (settle (handleLogout cfg s)) = warnTimeoutId s"
    and "redirectTimeoutId (settle (handleLogout cfg s)) = redirectTimeoutId s"
    and "clock (settle (handleLogout cfg s)) = clock s"
    and "localStorage (settle (handleLogout cfg s)) = localStorage s"
  using assms
  by (cases "onLogout cfg"; simp add: handleLogout_def closeDialog_def)+

lemma lone_timeout_run:
  assumes "timers s = [r]" and "kind r = Redirect"
  shows "trace (run_timers cfg target s) =
           trace s @
           (if due r \<le> target
            then (if dialog s then [DialogClosed] else []) @
                 (if onTimeout cfg = Absent then [] else [CallOnTimeout])
            else [])"
proof (cases "due r \<le> target")
  case True
  have e: "earliest (timers s) = Some r" using assms(1) by simp
  let ?s1 = "settle (handleTimeout cfg (s\<lparr>timers := [], clock := max (clock s) (due r)\<rparr>))"
  have f: "fire cfg (kind r)
             (s\<lparr>timers := filter (\<lambda>u. tid u \<noteq> tid r) (timers s),
                clock := max (clock s) (due r)\<rparr>) = ?s1"
    using assms by (simp add: fire_def)
  have "timers ?s1 = []" using timers_fire[of cfg Redirect] by (simp add: fire_def)
  then have "run_timers cfg target ?s1 = ?s1" by (rule run_timers_idle)
  then show ?thesis
    using run_timers_fire[OF e True, of cfg] f True by (simp add: trace_handleTimeout)
next
  case False
  then show ?thesis using assms(1) run_timers_wait[of s r target cfg] by simp
qed

section \<open>At most one pending timer of each kind; what the activation reads\<close>



lemma read_back:
  assumes "localStorage s = Some m"
  shows "getLastResetTime (updateLastResetTime s) = Some (Num (clock s))"
  using assms
  by (simp add: getLastResetTime_def updateLastResetTime_def parseInt_toString toString_ne)

lemma read_back_setup:
  assumes "localStorage s = Some m"
  shows "getLastResetTime (updateLastResetTime (setupStorageListener h s)) = Some (Num (clock s))"
proof -
  have "localStorage (setupStorageListener h s) = Some m"
    and "clock (setupStorageListener h s) = clock s"
    using assms by (simp_all add: setupStorageListener_def)
  then show ?thesis using read_back[of "setupStorageListener h s" m] by simp
qed

lemma prelude_frame:
  "clock (updateLastResetTime (setupStorageListener h s)) = clock s"
  "dialog (updateLastResetTime (setupStorageListener h s)) = dialog s"
  "next_id (updateLastResetTime (setupStorageListener h s)) = next_id s"
  "warnTimeoutId (updateLastResetTime (setupStorageListener h s)) = warnTimeoutId s"
  "redirectTimeoutId (updateLastResetTime (setupStorageListener h s)) = redirectTimeoutId s"
  by (simp_all add: updateLastResetTime_def setupStorageListener_def split: option.splits)

text \<open>What the activation does when the store is available: the instant it reads is the
  one it has just written.\<close>

lemma activate_with_store:
  assumes "localStorage s = Some m"
  shows "activate cfg h s =
           (let p = updateLastResetTime (setupStorageListener h s)
            in if clock s \<noteq> 0 then
                 if warnAt cfg \<le> 0 then showDialog p
                 else if 0 < timeoutAt cfg then adjustTimers cfg 0 p
                 else startTimers cfg p
               else startTimers cfg p)"
  using read_back_setup[OF assms, of h]
  by (simp add: activate_def Let_def prelude_frame)

lemma adjustTimers_fresh:
  assumes "timers s = []" and "warnTimeoutId s = None" and "redirectTimeoutId s = None"
    and "0 < warnAt cfg" and "0 < timeoutAt cfg"
  shows "adjustTimers cfg 0 s = startTimers cfg s"
  using assms
  by (simp add: adjustTimers_def startTimers_def clearWarn_def clearRedirect_def Let_def)

lemma activate_positive:
  assumes "localStorage s = Some m" and "timers s = []" and "warnTimeoutId s = None"
    and "redirectTimeoutId s = None" and "0 < warnAt cfg"
  shows "activate cfg h s = startTimers cfg (updateLastResetTime (setupStorageListener h s))"
proof -
  let ?p = "updateLastResetTime (setupStorageListener h s)"
  have "adjustTimers cfg 0 ?p = startTimers cfg ?p" if "0 < timeoutAt cfg"
    using assms(2-5) that by (intro adjustTimers_fresh) (simp_all add: prelude_frame timers_prelude)
  then show ?thesis using assms(5) by (simp add: activate_with_store[OF assms(1)] Let_def)
qed

lemma activate_overdue:
  assumes "localStorage s = Some m" and "clock s \<noteq> 0" and "warnAt cfg \<le> 0"
  shows "activate cfg h s = showDialog (updateLastResetTime (setupStorageListener h s))"
  using assms(2,3) by (simp add: activate_with_store[OF assms(1)] Let_def)

lemma new_session_frame:
  "localStorage (new_session now ls nid) = ls"
  "timers (new_session now ls nid) = []"
  "warnTimeoutId (new_session now ls nid) = None"
  "redirectTimeoutId (new_session now ls nid) = None"
  "clock (new_session now ls nid) = now"
  "next_id (new_session now ls nid) = nid"
  "\<not> dialog (new_session now ls nid)"
  by (simp_all add: new_session_def)

lemma sessionTimeout_positive:
  assumes "0 < warnAt cfg"
  shows "sessionTimeout cfg h now (Some m) nid =
           startTimers cfg (updateLastResetTime (setupStorageListener h (new_session now (Some m) nid)))"
  unfolding sessionTimeout_def using assms
  by (intro activate_positive[where m = m]) (simp_all add: new_session_frame)

lemma timers_fresh_start:
  assumes "timers s = []" and "warnTimeoutId s = None" and "redirectTimeoutId s = None"
  shows "timers (startTimers cfg s) =
           [\<lparr>tid = next_id s, due = clock s + host_delay (max 0 (warnAt cfg)), kind = Warn\<rparr>,
            \<lparr>tid = Suc (next_id s), due = clock s + host_delay (max 0 (timeoutAt cfg)),
             kind = Redirect\<rparr>]"
  using assms
  by (simp add: startTimers_def clearWarn_def clearRedirect_def armWarn_def armRedirect_def
      setTimeout_def host_delay_def toInt32_def Let_def)

lemma sessionTimeout_overdue:
  assumes "now \<noteq> 0" and "warnAt cfg \<le> 0"
  shows "timers (sessionTimeout cfg h now (Some m) nid) = []"
    and "dialog (sessionTimeout cfg h now (Some m) nid)"
proof -
  have eq: "sessionTimeout cfg h now (Some m) nid =
          showDialog (updateLastResetTime (setupStorageListener h (new_session now (Some m) nid)))"
    unfolding sessionTimeout_def using assms
    by (intro activate_overdue[where m = m]) (simp_all add: new_session_frame)
  show "timers (sessionTimeout cfg h now (Some m) nid) = []"
    unfolding eq by (simp add: showDialog_def timers_prelude new_session_frame)
  show "dialog (sessionTimeout cfg h now (Some m) nid)"
    unfolding eq by (simp add: showDialog_def)
qed

lemma store_overwritten:
  "updateLastResetTime (setupStorageListener h (new_session now (Some (m(storageKey := x))) nid)) =
   updateLastResetTime (setupStorageListener h (new_session now (Some m) nid))"
  by (simp add: updateLastResetTime_def setupStorageListener_def new_session_def)

lemma sessionTimeout_store_value:
  "sessionTimeout cfg h now (Some (m(storageKey := x))) nid = sessionTimeout cfg h now (Some m) nid"
proof -
  have "getLastResetTime (updateLastResetTime (setupStorageListener h
            (new_session now (Some (m(storageKey := x))) nid))) =
        getLastResetTime (updateLastResetTime (setupStorageListener h
            (new_session now (Some m) nid)))"
    by (simp only: store_overwritten)
  then show ?thesis
    by (simp add: sessionTimeout_def activate_def Let_def store_overwritten)
qed


lemma trace_startTimers: "\<exists>r. trace (startTimers cfg s) = trace s @ r"
  by (simp add: startTimers_def clearWarn_def clearRedirect_def clearTimeout_def armWarn_def
      armRedirect_def setTimeout_def host_delay_def toInt32_def Let_def split: option.splits)

lemma trace_updateLastResetTime: "\<exists>r. trace (updateLastResetTime s) = trace s @ r"
  by (simp add: updateLastResetTime_def split: option.splits)

lemma trace_closeDialog: "\<exists>r. trace (closeDialog s) = trace s @ r"
  by (simp add: closeDialog_def)

lemma trace_restart: "\<exists>r. trace (startTimers cfg (updateLastResetTime (closeDialog s))) = trace s @ r"
proof -
  obtain a where a: "trace (closeDialog s) = trace s @ a" using trace_closeDialog by blast
  obtain b where b: "trace (updateLastResetTime (closeDialog s)) = trace (closeDialog s) @ b"
    using trace_updateLastResetTime by blast
  obtain c where c: "trace (startTimers cfg (updateLastResetTime (closeDialog s))) =
      trace (updateLastResetTime (closeDialog s)) @ c"
    using trace_startTimers by blast
  show ?thesis using a b c by simp
qed

lemma handleContinue_action_first:
  assumes "onContinue cfg \<noteq> Absent"
  shows "\<exists>r. trace (settle (handleContinue cfg s)) = trace s @ CallOnContinue # r"
proof (cases "onContinue cfg")
  case Absent
  then show ?thesis using assms by simp
next
  case Returns
  obtain r where "trace (startTimers cfg (updateLastResetTime (closeDialog
      (s\<lparr>trace := trace s @ [CallOnContinue]\<rparr>)))) = trace (s\<lparr>trace := trace s @ [CallOnContinue]\<rparr>) @ r"
    using trace_restart by blast
  then show ?thesis using Returns by (simp add: handleContinue_def)
next
  case Throws
  then show ?thesis by (simp add: handleContinue_def)
qed

lemma handleLogout_action_first:
  assumes "onLogout cfg \<noteq> Absent"
  shows "\<exists>r. trace (settle (handleLogout cfg s)) = trace s @ CallOnLogout # r"
  using assms by (cases "onLogout cfg") (simp_all add: handleLogout_def closeDialog_def)

lemma handleTimeout_handles:
  "timers (settle (handleTimeout cfg s)) = timers s"
  "warnTimeoutId (settle (handleTimeout cfg s)) = warnTimeoutId s"
  "redirectTimeoutId (settle (handleTimeout cfg s)) = redirectTimeoutId s"
  by (cases "onTimeout cfg"; simp add: handleTimeout_def closeDialog_def)+

section \<open>The concrete session, evaluated\<close>

lemma demo_session_eq:
  "demo_session =
     \<lparr>clock = 1000, localStorage = None,
      timers = [\<lparr>tid = 1, due = 1100, kind = Warn\<rparr>, \<lparr>tid = 2, due = 1200, kind = Redirect\<rparr>],
      next_id = 3, listening = True,
      trace = [AddListener, SetTimeout 1 100 Warn, SetTimeout 2 200 Redirect],
      warnTimeoutId = Some 1, redirectTimeoutId = Some 2, dialog = False,
      storageEventListener = True\<rparr>"
  by (simp add: demo_session_def sessionTimeout_def activate_def new_session_def
      setupStorageListener_def demo_host_def updateLastResetTime_def getLastResetTime_def
      startTimers_def clearWarn_def clearRedirect_def armWarn_def armRedirect_def
      setTimeout_def host_delay_def toInt32_def demo_options_def Let_def)

lemma parseInt_850: "parseInt ''850'' = Num 850"
  by (simp add: parseInt_def is_space_def is_digit_def digits_value_def digit_val_def Let_def)

lemma demo_session_start:
  "demo_session =
     startTimers demo_options (setupStorageListener demo_host (new_session 1000 None 1))"
  by (simp add: demo_session_def sessionTimeout_def activate_def new_session_def
      setupStorageListener_def demo_host_def updateLastResetTime_def getLastResetTime_def)

lemma tracked_demo_start: "tracked (setupStorageListener demo_host (new_session 1000 None 1))"
  by (simp add: tracked_setupStorageListener tracked_new_session)

lemma parseInt_1030: "parseInt ''1030'' = Num 1030"
  by (simp add: parseInt_def is_space_def is_digit_def digits_value_def digit_val_def Let_def)

lemma demo_waiting_eq:
  "demo_waiting =
     \<lparr>clock = 1060, localStorage = None,
      timers = [\<lparr>tid = 1, due = 1100, kind = Warn\<rparr>, \<lparr>tid = 2, due = 1200, kind = Redirect\<rparr>],
      next_id = 3, listening = True,
      trace = [AddListener, SetTimeout 1 100 Warn, SetTimeout 2 200 Redirect],
      warnTimeoutId = Some 1, redirectTimeoutId = Some 2, dialog = False,
      storageEventListener = True\<rparr>"
proof -
  have "earliest (timers demo_session) = Some \<lparr>tid = 1, due = 1100, kind = Warn\<rparr>"
    by (simp add: demo_session_eq)
  then have "run_timers demo_options 1060 demo_session = demo_session"
    by (rule run_timers_wait) simp
  then show ?thesis by (simp add: demo_waiting_def advance_def demo_session_eq)
qed

lemma tracked_demo_waiting: "tracked demo_waiting"
  by (simp add: demo_waiting_eq tracked_def)

lemma demo_warning_eq:
  "demo_warning =
     \<lparr>clock = 1150, localStorage = None,
      timers = [\<lparr>tid = 2, due = 1200, kind = Redirect\<rparr>],
      next_id = 3, listening = True,
      trace = [AddListener, SetTimeout 1 100 Warn, SetTimeout 2 200 Redirect, ShowModal],
      warnTimeoutId = Some 1, redirectTimeoutId = Some 2, dialog = True,
      storageEventListener = True\<rparr>"
proof -
  have "run_timers demo_options 1150 demo_session =
          showDialog (demo_session\<lparr>timers := [\<lparr>tid = 2, due = 1200, kind = Redirect\<rparr>],
                                   clock := max (clock demo_session) 1100\<rparr>)"
    using cycle_run(2)[of demo_session "\<lparr>tid = 1, due = 1100, kind = Warn\<rparr>"
        "\<lparr>tid = 2, due = 1200, kind = Redirect\<rparr>" 1150 demo_options]
    by (simp add: demo_session_eq)
  then show ?thesis
    by (simp add: demo_warning_def advance_def) (simp add: demo_session_eq showDialog_def)
qed

lemma tracked_demo_session: "tracked demo_session"
  by (simp add: demo_session_eq tracked_def)

lemma tracked_demo_warning: "tracked demo_warning"
  by (simp add: demo_warning_eq tracked_def)

lemma toString_1000: "toString 1000 = ''1000''"
  by code_simp

lemma parseInt_950: "parseInt ''950'' = Num 950"
  by (simp add: parseInt_def is_space_def is_digit_def digits_value_def digit_val_def Let_def)

lemma parseInt_abc: "parseInt ''abc'' = NaN"
  by (simp add: parseInt_def is_space_def is_digit_def Let_def)

lemma demo_recent_eq:
  "sessionTimeout demo_options demo_host 1000 (Some recent_store) 1 =
     \<lparr>clock = 1000, localStorage = Some (recent_store(storageKey \<mapsto> ''1000'')),
      timers = [\<lparr>tid = 1, due = 1100, kind = Warn\<rparr>, \<lparr>tid = 2, due = 1200, kind = Redirect\<rparr>],
      next_id = 3, listening = True,
      trace = [AddListener, SetItem storageKey ''1000'', SetTimeout 1 100 Warn,
               SetTimeout 2 200 Redirect],
      warnTimeoutId = Some 1, redirectTimeoutId = Some 2, dialog = False,
      storageEventListener = True\<rparr>"
proof -
  have "0 < warnAt demo_options" by (simp add: demo_options_def)
  then have "sessionTimeout demo_options demo_host 1000 (Some recent_store) 1 =
      startTimers demo_options
        (updateLastResetTime (setupStorageListener demo_host (new_session 1000 (Some recent_store) 1)))"
    by (rule sessionTimeout_positive)
  then show ?thesis
    by (simp add: new_session_def setupStorageListener_def demo_host_def
        updateLastResetTime_def toString_1000 startTimers_def clearWarn_def clearRedirect_def
        armWarn_def armRedirect_def setTimeout_def host_delay_def toInt32_def demo_options_def Let_def)
qed

section \<open>Storage events\<close>

text \<open>
  Claim C10. A storage event whose key is not \<^verbatim>\<open>"session-timeout-last-reset"\<close>, or
  whose new value is absent (\<^verbatim>\<open>null\<close>) or the empty string, leaves the whole state as
  it was: the timers, the handles, the dialog, the store and the trace of host calls.
\<close>

theorem storage_event_ignored:
  assumes "key ev \<noteq> Some storageKey \<or> newValue ev = None \<or> newValue ev = Some []"
  shows "handleStorageChange cfg ev s = s"
  using assms by (auto simp: handleStorageChange_def split: option.splits)

theorem storage_event_ignored_witness:
  "key \<lparr>key = Some ''different-key'', newValue = Some ''1000''\<rparr> \<noteq> Some storageKey \<and>
   handleStorageChange demo_options \<lparr>key = Some ''different-key'', newValue = Some ''1000''\<rparr>
     demo_session = demo_session"
  using storage_event_ignored
    [of "\<lparr>key = Some ''different-key'', newValue = Some ''1000''\<rparr>" demo_options demo_session]
  by (simp add: storageKey_def)

text \<open>
  Claim C5. A storage event for the session's key whose value parses to an instant \<open>t\<close>
  with \<open>now - t \<ge> warnAt\<close>, handled while no dialog exists, leaves the dialog shown when
  the handler returns: \<^verbatim>\<open>showModal\<close> is the one host call made, and no timer is set or
  cleared, so nothing is scheduled in between.
\<close>

theorem overdue_notification_shows_warning:
  assumes "key ev = Some storageKey" and "newValue ev = Some v" and "parseInt v = Num t"
    and "warnAt cfg \<le> clock s - t" and "\<not> dialog s"
  shows "dialog (handleStorageChange cfg ev s) \<and>
         trace (handleStorageChange cfg ev s) = trace s @ [ShowModal] \<and>
         timers (handleStorageChange cfg ev s) = timers s \<and>
         clock (handleStorageChange cfg ev s) = clock s"
proof -
  have "v \<noteq> []" using assms(3) parseInt_Nil by auto
  then have "handleStorageChange cfg ev s = showDialog (closeDialog s)"
    using assms(1-4) by (simp add: handleStorageChange_def Let_def)
  then show ?thesis using assms(5) by (simp add: showDialog_def closeDialog_def)
qed

theorem overdue_notification_shows_warning_witness:
  "key \<lparr>key = Some storageKey, newValue = Some ''850''\<rparr> = Some storageKey \<and>
   parseInt ''850'' = Num 850 \<and> warnAt demo_options \<le> clock demo_session - 850 \<and>
   \<not> dialog demo_session \<and>
   dialog (handleStorageChange demo_options \<lparr>key = Some storageKey, newValue = Some ''850''\<rparr>
             demo_session)"
  using overdue_notification_shows_warning
    [of "\<lparr>key = Some storageKey, newValue = Some ''850''\<rparr>" "''850''" 850 demo_options
      demo_session]
  by (simp add: parseInt_850 demo_session_eq demo_options_def)

section \<open>Disposal\<close>



section \<open>One countdown cycle\<close>

text \<open>
  Claim C3, as amended. With \<open>0 \<le> warnAt \<le> timeoutAt < 2^31\<close>, after \<^verbatim>\<open>startTimers\<close>
  (called in a state whose handles record every pending timer, as in every state a
  session can reach, see \<open>tracked_run\<close>) and \<open>n\<close> milliseconds with no other input, the
  host calls made since are: none while \<open>n < warnAt\<close>; the one \<^verbatim>\<open>showModal\<close> from
  \<open>n = warnAt\<close> on; and from \<open>n = timeoutAt\<close> on that \<^verbatim>\<open>showModal\<close>, the closing of the
  dialog and the one call of \<^verbatim>\<open>onTimeout\<close> (when the option holds a function). The warn
  callback leaves the pending timers alone, and \<^verbatim>\<open>handleTimeout\<close> closes a dialog that
  exists and then calls \<^verbatim>\<open>onTimeout\<close>, whatever the state.
\<close>

theorem fresh_countdown:
  assumes "tracked s" and "0 \<le> warnAt cfg" and "warnAt cfg \<le> timeoutAt cfg"
    and "timeoutAt cfg < 2147483648"
  shows "trace (advance cfg n (startTimers cfg s)) =
           trace (startTimers cfg s) @
           (if int n < warnAt cfg then []
            else if int n < timeoutAt cfg then [ShowModal]
            else [ShowModal, DialogClosed] @
                 (if onTimeout cfg = Absent then [] else [CallOnTimeout])) \<and>
         timers (fire cfg Warn s') = timers s' \<and>
         trace (settle (handleTimeout cfg s')) =
           trace s' @ (if dialog s' then [DialogClosed] else []) @
           (if onTimeout cfg = Absent then [] else [CallOnTimeout]) \<and>
         \<not> dialog (settle (handleTimeout cfg s'))"
proof -
  let ?s = "startTimers cfg s"
  let ?w = "\<lparr>tid = next_id s, due = clock s + warnAt cfg, kind = Warn\<rparr>"
  let ?r = "\<lparr>tid = Suc (next_id s), due = clock s + timeoutAt cfg, kind = Redirect\<rparr>"
  let ?target = "clock ?s + int n"
  have hw: "host_delay (max 0 (warnAt cfg)) = warnAt cfg"
    using assms(2-4) host_delay_clamped[of "warnAt cfg"] by simp
  have ht: "host_delay (max 0 (timeoutAt cfg)) = timeoutAt cfg"
    using assms(2-4) host_delay_clamped[of "timeoutAt cfg"] by simp
  have q: "timers ?s = [?w, ?r]"
    using timers_startTimers[OF assms(1), of cfg] hw ht by simp
  have c: "clock ?s = clock s" by (rule handles_startTimers)
  note cyc = cycle_run[OF q, of ?target cfg, simplified]
  have "trace (run_timers cfg ?target ?s) =
           trace ?s @
           (if int n < warnAt cfg then []
            else if int n < timeoutAt cfg then [ShowModal]
            else [ShowModal, DialogClosed] @
                 (if onTimeout cfg = Absent then [] else [CallOnTimeout]))"
  proof (cases "int n < warnAt cfg")
    case True
    then show ?thesis using cyc(1) assms(3) c by simp
  next
    case False
    note nw = this
    show ?thesis
    proof (cases "int n < timeoutAt cfg")
      case True
      then show ?thesis using cyc(2) nw assms(3) c by (simp add: showDialog_def)
    next
      case False
      then show ?thesis using cyc(3) nw assms(3) c
        by (simp add: trace_handleTimeout showDialog_def)
    qed
  qed
  then show ?thesis
    by (simp add: advance_def timers_fire trace_handleTimeout dialog_handleTimeout)
qed

theorem fresh_countdown_witness:
  "trace (advance demo_options 99 demo_session) = trace demo_session \<and>
   trace (advance demo_options 100 demo_session) = trace demo_session @ [ShowModal] \<and>
   trace (advance demo_options 200 demo_session) =
     trace demo_session @ [ShowModal, DialogClosed, CallOnTimeout]"
proof -
  have b: "0 \<le> warnAt demo_options" "warnAt demo_options \<le> timeoutAt demo_options"
    "timeoutAt demo_options < 2147483648"
    by (simp_all add: demo_options_def)
  show ?thesis
    using fresh_countdown[OF tracked_demo_start b, of 99, folded demo_session_start]
      fresh_countdown[OF tracked_demo_start b, of 100, folded demo_session_start]
      fresh_countdown[OF tracked_demo_start b, of 200, folded demo_session_start]
    by (simp add: demo_options_def)
qed

text \<open>
  The claim as stated, for all non-negative durations, fails: with \<open>warnAt\<close> and
  \<open>timeoutAt\<close> at \<open>2^31\<close> ms, both timers set by \<^verbatim>\<open>startTimers\<close> are due at the instant
  they are set, and one millisecond later the dialog has been shown and closed and
  \<^verbatim>\<open>onTimeout\<close> has been called.
\<close>

theorem fresh_countdown_long_counterexample:
  "0 \<le> warnAt long_options \<and> warnAt long_options \<le> timeoutAt long_options \<and>
   int 1 < warnAt long_options \<and>
   map due (timers (startTimers long_options demo_session)) =
     [clock demo_session, clock demo_session] \<and>
   trace (advance long_options 1 (startTimers long_options demo_session)) =
     trace (startTimers long_options demo_session) @ [ShowModal, DialogClosed, CallOnTimeout]"
proof -
  let ?s = "startTimers long_options demo_session"
  have q: "timers ?s =
      [\<lparr>tid = 3, due = 1000, kind = Warn\<rparr>, \<lparr>tid = 4, due = 1000, kind = Redirect\<rparr>]"
    using timers_startTimers[OF tracked_demo_session, of long_options]
    by (simp add: long_options_def demo_options_def demo_session_eq host_delay_wraps)
  have c: "clock ?s = 1000" by (simp add: handles_startTimers demo_session_eq)
  have d: "dialog demo_session = False" by (simp add: demo_session_eq)
  have "trace (run_timers long_options 1001 ?s) =
          trace ?s @ [ShowModal, DialogClosed, CallOnTimeout]"
    using cycle_run(3)[OF q, of 1001 long_options]
    by (simp add: trace_handleTimeout showDialog_def long_options_def demo_options_def)
  then have a: "trace (advance long_options 1 ?s) =
          trace ?s @ [ShowModal, DialogClosed, CallOnTimeout]"
    using c by (simp add: advance_def)
  have m: "map due (timers ?s) = [clock demo_session, clock demo_session]"
    using q by (simp add: demo_session_eq)
  have b: "0 \<le> warnAt long_options" "warnAt long_options \<le> timeoutAt long_options"
    "int 1 < warnAt long_options"
    by (simp_all add: long_options_def)
  show ?thesis using b m a by (intro conjI)
qed

section \<open>Continue and log out\<close>

text \<open>
  Claim C6, as amended. In a state whose handles record every pending timer (every
  state a session can reach), with durations below \<open>2^31\<close> ms: when \<^verbatim>\<open>onContinue\<close>
  returns (or the option holds no function), the continue decision leaves no dialog and
  exactly two pending timers, set at the moment of the decision with the full delays
  \<open>max 0 warnAt\<close> and \<open>max 0 timeoutAt\<close>; when \<^verbatim>\<open>onLogout\<close> returns, the logout decision
  leaves no dialog and leaves the pending timers, both handles and the clock as they
  were, so that a timeout timer that was pending alone fires when its own due time is
  reached and not before. When the action throws, the decision changes neither the
  dialog nor the timers.
\<close>

theorem continue_restarts_logout_does_not:
  assumes "tracked s" and "warnAt cfg < 2147483648" and "timeoutAt cfg < 2147483648"
  shows "(onContinue cfg \<noteq> Throws \<longrightarrow>
            \<not> dialog (settle (handleContinue cfg s)) \<and>
            timers (settle (handleContinue cfg s)) =
              [\<lparr>tid = next_id s, due = clock s + max 0 (warnAt cfg), kind = Warn\<rparr>,
               \<lparr>tid = Suc (next_id s), due = clock s + max 0 (timeoutAt cfg),
                kind = Redirect\<rparr>]) \<and>
         (onLogout cfg \<noteq> Throws \<longrightarrow>
            \<not> dialog (settle (handleLogout cfg s)) \<and>
            timers (settle (handleLogout cfg s)) = timers s \<and>
            warnTimeoutId (settle (handleLogout cfg s)) = warnTimeoutId s \<and>
            redirectTimeoutId (settle (handleLogout cfg s)) = redirectTimeoutId s \<and>
            clock (settle (handleLogout cfg s)) = clock s \<and>
            (timers s = [r] \<and> kind r = Redirect \<longrightarrow>
               trace (run_timers cfg target (settle (handleLogout cfg s))) =
                 trace (settle (handleLogout cfg s)) @
                 (if due r \<le> target
                  then (if onTimeout cfg = Absent then [] else [CallOnTimeout])
                  else []))) \<and>
         (onContinue cfg = Throws \<longrightarrow>
            dialog (settle (handleContinue cfg s)) = dialog s \<and>
            timers (settle (handleContinue cfg s)) = timers s) \<and>
         (onLogout cfg = Throws \<longrightarrow>
            dialog (settle (handleLogout cfg s)) = dialog s \<and>
            timers (settle (handleLogout cfg s)) = timers s)"
proof -
  have 1: "\<not> dialog (settle (handleContinue cfg s)) \<and>
            timers (settle (handleContinue cfg s)) =
              [\<lparr>tid = next_id s, due = clock s + max 0 (warnAt cfg), kind = Warn\<rparr>,
               \<lparr>tid = Suc (next_id s), due = clock s + max 0 (timeoutAt cfg),
                kind = Redirect\<rparr>]"
    if "onContinue cfg \<noteq> Throws"
    using timers_handleContinue[OF assms(1) that] host_delay_clamped[OF assms(2)]
      host_delay_clamped[OF assms(3)]
    by simp
  have 2: "\<not> dialog (settle (handleLogout cfg s)) \<and>
            timers (settle (handleLogout cfg s)) = timers s \<and>
            warnTimeoutId (settle (handleLogout cfg s)) = warnTimeoutId s \<and>
            redirectTimeoutId (settle (handleLogout cfg s)) = redirectTimeoutId s \<and>
            clock (settle (handleLogout cfg s)) = clock s \<and>
            (timers s = [r] \<and> kind r = Redirect \<longrightarrow>
               trace (run_timers cfg target (settle (handleLogout cfg s))) =
                 trace (settle (handleLogout cfg s)) @
                 (if due r \<le> target
                  then (if onTimeout cfg = Absent then [] else [CallOnTimeout])
                  else []))"
    if lo: "onLogout cfg \<noteq> Throws"
  proof -
    have "trace (run_timers cfg target (settle (handleLogout cfg s))) =
              trace (settle (handleLogout cfg s)) @
              (if due r \<le> target then (if onTimeout cfg = Absent then [] else [CallOnTimeout])
               else [])"
      if "timers s = [r]" and "kind r = Redirect"
      using lone_timeout_run[of "settle (handleLogout cfg s)" r cfg target] that
        handleLogout_frame(1,2)[OF lo, of s]
      by simp
    then show ?thesis using handleLogout_frame[OF lo, of s] by simp
  qed
  have 3: "dialog (settle (handleContinue cfg s)) = dialog s \<and>
            timers (settle (handleContinue cfg s)) = timers s"
    if "onContinue cfg = Throws"
    using that by (simp add: handleContinue_def)
  have 4: "dialog (settle (handleLogout cfg s)) = dialog s \<and>
            timers (settle (handleLogout cfg s)) = timers s"
    if "onLogout cfg = Throws"
    using that by (simp add: handleLogout_def)
  show ?thesis using 1 2 3 4 by blast
qed

theorem continue_restarts_logout_does_not_witness:
  "timers (settle (handleContinue demo_options demo_warning)) =
     [\<lparr>tid = 3, due = 1250, kind = Warn\<rparr>, \<lparr>tid = 4, due = 1350, kind = Redirect\<rparr>] \<and>
   timers (settle (handleLogout demo_options demo_warning)) = timers demo_warning \<and>
   \<not> dialog (settle (handleLogout demo_options demo_warning)) \<and>
   trace (run_timers demo_options 1199 (settle (handleLogout demo_options demo_warning))) =
     trace demo_warning @ [CallOnLogout, DialogClosed] \<and>
   trace (run_timers demo_options 1200 (settle (handleLogout demo_options demo_warning))) =
     trace demo_warning @ [CallOnLogout, DialogClosed, CallOnTimeout] \<and>
   dialog (settle (handleContinue throwing_options demo_warning)) \<and>
   timers (settle (handleLogout throwing_options demo_warning)) = timers demo_warning"
proof -
  have b: "warnAt demo_options < 2147483648" "timeoutAt demo_options < 2147483648"
    by (simp_all add: demo_options_def)
  have b': "warnAt throwing_options < 2147483648" "timeoutAt throwing_options < 2147483648"
    by (simp_all add: throwing_options_def demo_options_def)
  have c: "onContinue demo_options \<noteq> Throws" "onLogout demo_options \<noteq> Throws"
    "onTimeout demo_options \<noteq> Absent"
    by (simp_all add: demo_options_def)
  have c': "onContinue throwing_options = Throws" "onLogout throwing_options = Throws"
    by (simp_all add: throwing_options_def)
  have q: "timers demo_warning = [\<lparr>tid = 2, due = 1200, kind = Redirect\<rparr>]"
    "dialog demo_warning" "next_id demo_warning = 3" "clock demo_warning = 1150"
    by (simp_all add: demo_warning_eq)
  have l: "trace (settle (handleLogout demo_options demo_warning)) =
      trace demo_warning @ [CallOnLogout, DialogClosed]"
    by (simp add: handleLogout_def demo_options_def closeDialog_def demo_warning_eq)
  note t1 = continue_restarts_logout_does_not
    [OF tracked_demo_warning b, of "\<lparr>tid = 2, due = 1200, kind = Redirect\<rparr>" 1199]
  note t2 = continue_restarts_logout_does_not
    [OF tracked_demo_warning b, of "\<lparr>tid = 2, due = 1200, kind = Redirect\<rparr>" 1200]
  note t3 = continue_restarts_logout_does_not
    [OF tracked_demo_warning b', of "\<lparr>tid = 2, due = 1200, kind = Redirect\<rparr>" 1200]
  have 1: "timers (settle (handleContinue demo_options demo_warning)) =
     [\<lparr>tid = 3, due = 1250, kind = Warn\<rparr>, \<lparr>tid = 4, due = 1350, kind = Redirect\<rparr>]"
    using t1[THEN conjunct1, rule_format, OF c(1), THEN conjunct2] q
    by (simp add: demo_options_def)
  note lo1 = t1[THEN conjunct2, THEN conjunct1, rule_format, OF c(2)]
  note lo2 = t2[THEN conjunct2, THEN conjunct1, rule_format, OF c(2)]
  have 2: "timers (settle (handleLogout demo_options demo_warning)) = timers demo_warning"
    and 3: "\<not> dialog (settle (handleLogout demo_options demo_warning))"
    using lo1 by blast+
  have 4: "trace (run_timers demo_options 1199 (settle (handleLogout demo_options demo_warning))) =
     trace demo_warning @ [CallOnLogout, DialogClosed]"
    using lo1 q(1) c(3) l by simp
  have 5: "trace (run_timers demo_options 1200 (settle (handleLogout demo_options demo_warning))) =
     trace demo_warning @ [CallOnLogout, DialogClosed, CallOnTimeout]"
    using lo2 q(1) c(3) l by simp
  have 6: "dialog (settle (handleContinue throwing_options demo_warning))"
    using t3 c'(1) q(2) by blast
  have 7: "timers (settle (handleLogout throwing_options demo_warning)) = timers demo_warning"
    using t3 c'(2) by blast
  show ?thesis using 1 2 3 4 5 6 7 by (intro conjI)
qed

text \<open>
  The claim as stated fails: with the dialog shown and the timeout timer pending, a
  continue decision whose \<^verbatim>\<open>onContinue\<close> throws leaves the dialog shown and the old
  timeout timer pending, with no new timer; and with both durations at \<open>2^31\<close> ms a
  continue decision leaves the two new timers due at the instant of the decision.
\<close>

theorem continue_always_counterexample:
  "dialog demo_warning \<and> onContinue throwing_options = Throws \<and>
   dialog (settle (handleContinue throwing_options demo_warning)) \<and>
   timers (settle (handleContinue throwing_options demo_warning)) =
     [\<lparr>tid = 2, due = 1200, kind = Redirect\<rparr>] \<and>
   clock demo_warning = 1150 \<and>
   timers (settle (handleContinue long_options demo_warning)) =
     [\<lparr>tid = 3, due = 1150, kind = Warn\<rparr>, \<lparr>tid = 4, due = 1150, kind = Redirect\<rparr>]"
proof -
  have a: "dialog demo_warning" "clock demo_warning = 1150" by (simp_all add: demo_warning_eq)
  have b: "onContinue throwing_options = Throws" by (simp add: throwing_options_def)
  have c: "dialog (settle (handleContinue throwing_options demo_warning))"
    "timers (settle (handleContinue throwing_options demo_warning)) =
       [\<lparr>tid = 2, due = 1200, kind = Redirect\<rparr>]"
    by (simp_all add: handleContinue_def throwing_options_def demo_warning_eq)
  have "onContinue long_options \<noteq> Throws" by (simp add: long_options_def demo_options_def)
  then have d: "timers (settle (handleContinue long_options demo_warning)) =
     [\<lparr>tid = 3, due = 1150, kind = Warn\<rparr>, \<lparr>tid = 4, due = 1150, kind = Redirect\<rparr>]"
    using timers_handleContinue(1)[OF tracked_demo_warning, of long_options]
    by (simp add: long_options_def demo_options_def demo_warning_eq host_delay_wraps)
  show ?thesis using a b c d by (intro conjI)
qed

section \<open>A notification of a recent reset\<close>

text \<open>
  Claim C2, as amended. With durations below \<open>2^31\<close> ms, a storage event for the
  session's key whose instant \<open>t\<close> has \<open>0 < now - t < min warnAt timeoutAt\<close> makes the
  session close its dialog, clear its pending timers and start both again with their
  full delays: the warn timer is due \<open>warnAt\<close> after the event is handled and the timeout
  timer \<open>timeoutAt\<close> after it. The time already elapsed since \<open>t\<close> is not subtracted.
\<close>

theorem notification_restarts_full_length:
  assumes "tracked s" and "key ev = Some storageKey" and "newValue ev = Some v"
    and "parseInt v = Num t" and "0 < clock s - t"
    and "clock s - t < min (warnAt cfg) (timeoutAt cfg)"
    and "warnAt cfg < 2147483648" and "timeoutAt cfg < 2147483648"
  shows "timers (handleStorageChange cfg ev s) =
           [\<lparr>tid = next_id s, due = clock s + warnAt cfg, kind = Warn\<rparr>,
            \<lparr>tid = Suc (next_id s), due = clock s + timeoutAt cfg, kind = Redirect\<rparr>] \<and>
         \<not> dialog (handleStorageChange cfg ev s)"
proof -
  have "v \<noteq> []" using assms(4) parseInt_Nil by auto
  then have eq: "handleStorageChange cfg ev s = startTimers cfg (closeDialog s)"
    using assms(2-6) by (simp add: handleStorageChange_def Let_def)
  have tr: "tracked (closeDialog s)" using assms(1) by (simp add: tracked_closeDialog)
  have fr: "next_id (closeDialog s) = next_id s" "clock (closeDialog s) = clock s"
    "\<not> dialog (closeDialog s)"
    by (simp_all add: closeDialog_def)
  have hw: "host_delay (max 0 (warnAt cfg)) = warnAt cfg"
    using assms(5,6) host_delay_clamped[OF assms(7)] by simp
  have ht: "host_delay (max 0 (timeoutAt cfg)) = timeoutAt cfg"
    using assms(5,6) host_delay_clamped[OF assms(8)] by simp
  show ?thesis
    unfolding eq using timers_startTimers[OF tr, of cfg] fr hw ht
    by (simp add: handles_startTimers)
qed

theorem notification_restarts_full_length_witness:
  "timers (handleStorageChange demo_options \<lparr>key = Some storageKey, newValue = Some ''1030''\<rparr>
             demo_waiting) =
     [\<lparr>tid = 3, due = 1160, kind = Warn\<rparr>, \<lparr>tid = 4, due = 1260, kind = Redirect\<rparr>]"
  using notification_restarts_full_length
    [OF tracked_demo_waiting, of "\<lparr>key = Some storageKey, newValue = Some ''1030''\<rparr>"
      "''1030''" 1030 demo_options]
  by (simp add: parseInt_1030 demo_waiting_eq demo_options_def)

text \<open>
  The claim as stated fails: at instant 1060 a notification of a reset at 1030 (30 ms
  ago, \<open>warnAt = 100\<close>) leaves the warn timer due at 1160, not at 1130.
\<close>

theorem notification_adjusts_counterexample:
  "parseInt ''1030'' = Num 1030 \<and>
   0 < clock demo_waiting - 1030 \<and>
   clock demo_waiting - 1030 < min (warnAt demo_options) (timeoutAt demo_options) \<and>
   map due (pending Warn
     (handleStorageChange demo_options \<lparr>key = Some storageKey, newValue = Some ''1030''\<rparr>
        demo_waiting)) =
     [clock demo_waiting + warnAt demo_options] \<and>
   map due (pending Warn
     (handleStorageChange demo_options \<lparr>key = Some storageKey, newValue = Some ''1030''\<rparr>
        demo_waiting)) \<noteq>
     [clock demo_waiting + (warnAt demo_options - (clock demo_waiting - 1030))]"
  by (simp add: demo_waiting_eq parseInt_1030 handleStorageChange_def Let_def
      demo_options_def closeDialog_def startTimers_def clearWarn_def
      clearRedirect_def clearTimeout_def armWarn_def armRedirect_def setTimeout_def host_delay_def toInt32_def pending_def)

section \<open>A stored value that is not a number\<close>

text \<open>
  Claim C8, evaluated on the code. The store holds \<^verbatim>\<open>"abc"\<close>, which \<^verbatim>\<open>parseInt\<close> turns
  into \<^verbatim>\<open>NaN\<close>; the session is activated at instant 1000 with \<open>warnAt = 0\<close> and
  \<open>timeoutAt = 200\<close>. Read before the activation's own write, the stored value is
  \<^verbatim>\<open>NaN\<close>, which \<^verbatim>\<open>if (lastResetTime)\<close> would send to \<^verbatim>\<open>startTimers\<close>. The activation
  writes the instant 1000 first and reads that back, so the time since the reset is
  \<open>0 \<ge> warnAt\<close>: the dialog is shown at once and no timer is set, and no amount of time
  brings a call of \<^verbatim>\<open>onTimeout\<close>. A fresh countdown, as \<^verbatim>\<open>startTimers\<close> starts it and as
  the same activation starts it in a host without \<^verbatim>\<open>localStorage\<close>, has the warn timer
  and the timeout timer pending.
\<close>

theorem malformed_value_zero_warn:
  "malformed_store storageKey = Some ''abc'' \<and> parseInt ''abc'' = NaN \<and>
   getLastResetTime (new_session 1000 (Some malformed_store) 1) = Some NaN \<and>
   getLastResetTime
     (updateLastResetTime
        (setupStorageListener demo_host (new_session 1000 (Some malformed_store) 1))) =
     Some (Num 1000) \<and>
   dialog (sessionTimeout zero_warn_options demo_host 1000 (Some malformed_store) 1) \<and>
   timers (sessionTimeout zero_warn_options demo_host 1000 (Some malformed_store) 1) = [] \<and>
   trace (advance zero_warn_options 100000
            (sessionTimeout zero_warn_options demo_host 1000 (Some malformed_store) 1)) =
     trace (sessionTimeout zero_warn_options demo_host 1000 (Some malformed_store) 1) \<and>
   timers (startTimers zero_warn_options (new_session 1000 (Some malformed_store) 1)) =
     [\<lparr>tid = 1, due = 1000, kind = Warn\<rparr>, \<lparr>tid = 2, due = 1200, kind = Redirect\<rparr>] \<and>
   timers (sessionTimeout zero_warn_options demo_host 1000 None 1) =
     [\<lparr>tid = 1, due = 1000, kind = Warn\<rparr>, \<lparr>tid = 2, due = 1200, kind = Redirect\<rparr>]"
proof -
  let ?s = "sessionTimeout zero_warn_options demo_host 1000 (Some malformed_store) 1"
  have z: "warnAt zero_warn_options \<le> 0" "(1000::int) \<noteq> 0"
    by (simp_all add: zero_warn_options_def)
  have a: "malformed_store storageKey = Some ''abc''" by (simp add: malformed_store_def)
  have g: "getLastResetTime (new_session 1000 (Some malformed_store) 1) = Some NaN"
    by (simp add: getLastResetTime_def new_session_def malformed_store_def parseInt_abc)
  have g': "getLastResetTime
     (updateLastResetTime
        (setupStorageListener demo_host (new_session 1000 (Some malformed_store) 1))) =
     Some (Num 1000)"
    using read_back_setup[of "new_session 1000 (Some malformed_store) 1" malformed_store demo_host]
    by (simp add: new_session_frame)
  have d: "dialog ?s" using z by (intro sessionTimeout_overdue) simp_all
  have t: "timers ?s = []" using z by (intro sessionTimeout_overdue) simp_all
  have "run_timers zero_warn_options (clock ?s + 100000) ?s = ?s" using t by (rule run_timers_idle)
  then have q: "trace (advance zero_warn_options 100000 ?s) = trace ?s"
    by (simp add: advance_def)
  have f: "timers (startTimers zero_warn_options (new_session 1000 (Some malformed_store) 1)) =
     [\<lparr>tid = 1, due = 1000, kind = Warn\<rparr>, \<lparr>tid = 2, due = 1200, kind = Redirect\<rparr>]"
    using timers_fresh_start[of "new_session 1000 (Some malformed_store) 1" zero_warn_options]
    by (simp add: new_session_frame numeral_2_eq_2 zero_warn_options_def demo_options_def
        host_delay_def toInt32_def)
  have n: "timers (sessionTimeout zero_warn_options demo_host 1000 None 1) =
     [\<lparr>tid = 1, due = 1000, kind = Warn\<rparr>, \<lparr>tid = 2, due = 1200, kind = Redirect\<rparr>]"
    by (simp add: sessionTimeout_def activate_def new_session_def setupStorageListener_def
        demo_host_def updateLastResetTime_def getLastResetTime_def startTimers_def
        clearWarn_def clearRedirect_def armWarn_def armRedirect_def setTimeout_def
        host_delay_def toInt32_def zero_warn_options_def demo_options_def Let_def)
  show ?thesis using a parseInt_abc g g' d t q f n by (intro conjI)
qed

section \<open>Activation next to a recent reset of another tab\<close>

text \<open>
  Claim C1, evaluated on the code. The store holds the instant 950; the session is
  activated at instant 1000 with \<open>warnAt = 100\<close> and \<open>timeoutAt = 200\<close>. Read before the
  activation, the stored instant is 950, 50 ms in the past. The activation first writes
  the instant 1000 to the store and then reads the store, so the warn timer is due at
  1100, the full \<open>warnAt\<close> after the activation: 50 ms later no dialog exists, and the
  dialog is shown 100 ms after the activation.
\<close>

theorem activation_restarts_despite_recent_reset:
  "getLastResetTime (new_session 1000 (Some recent_store) 1) = Some (Num 950) \<and>
   trace (sessionTimeout demo_options demo_host 1000 (Some recent_store) 1) =
     [AddListener, SetItem storageKey ''1000'', SetTimeout 1 100 Warn,
      SetTimeout 2 200 Redirect] \<and>
   timers (sessionTimeout demo_options demo_host 1000 (Some recent_store) 1) =
     [\<lparr>tid = 1, due = 1100, kind = Warn\<rparr>, \<lparr>tid = 2, due = 1200, kind = Redirect\<rparr>] \<and>
   \<not> dialog (advance demo_options 50
               (sessionTimeout demo_options demo_host 1000 (Some recent_store) 1)) \<and>
   dialog (advance demo_options 100
             (sessionTimeout demo_options demo_host 1000 (Some recent_store) 1))"
proof -
  let ?s = "sessionTimeout demo_options demo_host 1000 (Some recent_store) 1"
  have q: "timers ?s = [\<lparr>tid = 1, due = 1100, kind = Warn\<rparr>, \<lparr>tid = 2, due = 1200, kind = Redirect\<rparr>]"
    unfolding demo_recent_eq by simp
  have c: "clock ?s = 1000" and d: "\<not> dialog ?s" unfolding demo_recent_eq by simp_all
  have e: "trace ?s = [AddListener, SetItem storageKey ''1000'', SetTimeout 1 100 Warn,
      SetTimeout 2 200 Redirect]"
    unfolding demo_recent_eq by simp
  have r: "getLastResetTime (new_session 1000 (Some recent_store) 1) = Some (Num 950)"
    by (simp add: getLastResetTime_def new_session_def recent_store_def parseInt_950)
  have "run_timers demo_options 1050 ?s = ?s"
    using cycle_run(1)[OF q, of 1050 demo_options] by simp
  then have a: "\<not> dialog (advance demo_options 50 ?s)"
    using c d by (simp add: advance_def)
  have "run_timers demo_options 1100 ?s =
          showDialog (?s\<lparr>timers := [\<lparr>tid = 2, due = 1200, kind = Redirect\<rparr>],
                         clock := max (clock ?s) 1100\<rparr>)"
    using cycle_run(2)[OF q, of 1100 demo_options] by simp
  then have b: "dialog (advance demo_options 100 ?s)"
    using c by (simp add: advance_def showDialog_def)
  show ?thesis using r e q a b by (intro conjI)
qed

section \<open>A reset instant that is already overdue\<close>




section \<open>User actions that throw\<close>

text \<open>
  Claim C9, as amended. \<^verbatim>\<open>handleContinue\<close> and \<^verbatim>\<open>handleLogout\<close> call the user's action
  before anything else; when it throws, the handler ends there, with the dialog, the
  timers, the handles and the store as they were before the decision.
  \<^verbatim>\<open>handleTimeout\<close> closes the dialog and then calls \<^verbatim>\<open>onTimeout\<close>; it neither clears nor
  sets a timer. Thrown or not, every pending timer is still recorded in its handle
  afterwards.
\<close>

theorem actions_run_first:
  "(onContinue cfg \<noteq> Absent \<longrightarrow>
      (\<exists>r. trace (settle (handleContinue cfg s)) = trace s @ CallOnContinue # r)) \<and>
   (onLogout cfg \<noteq> Absent \<longrightarrow>
      (\<exists>r. trace (settle (handleLogout cfg s)) = trace s @ CallOnLogout # r)) \<and>
   (onContinue cfg = Throws \<longrightarrow>
      handleContinue cfg s = Uncaught (s\<lparr>trace := trace s @ [CallOnContinue]\<rparr>)) \<and>
   (onLogout cfg = Throws \<longrightarrow>
      handleLogout cfg s = Uncaught (s\<lparr>trace := trace s @ [CallOnLogout]\<rparr>)) \<and>
   (onTimeout cfg = Throws \<longrightarrow>
      handleTimeout cfg s =
        Uncaught ((closeDialog s)\<lparr>trace := trace (closeDialog s) @ [CallOnTimeout]\<rparr>)) \<and>
   timers (settle (handleTimeout cfg s)) = timers s \<and>
   warnTimeoutId (settle (handleTimeout cfg s)) = warnTimeoutId s \<and>
   redirectTimeoutId (settle (handleTimeout cfg s)) = redirectTimeoutId s \<and>
   (tracked s \<longrightarrow>
      tracked (settle (handleContinue cfg s)) \<and> tracked (settle (handleLogout cfg s)) \<and>
      tracked (settle (handleTimeout cfg s)))"
proof -
  have "tracked (settle (handleTimeout cfg s))" if "tracked s"
    using that tracked_fire[of cfg Redirect s] by (simp add: fire_def)
  then show ?thesis
    using handleContinue_action_first[of cfg s] handleLogout_action_first[of cfg s]
      handleTimeout_handles[of cfg s] tracked_handleContinue[of s cfg]
      tracked_handleLogout[of s cfg]
    by (simp add: handleContinue_def handleLogout_def handleTimeout_def)
qed

theorem actions_run_first_witness:
  "handleContinue throwing_options demo_warning =
     Uncaught (demo_warning\<lparr>trace := trace demo_warning @ [CallOnContinue]\<rparr>) \<and>
   handleLogout throwing_options demo_warning =
     Uncaught (demo_warning\<lparr>trace := trace demo_warning @ [CallOnLogout]\<rparr>) \<and>
   handleTimeout throwing_options demo_warning =
     Uncaught ((closeDialog demo_warning)
                 \<lparr>trace := trace (closeDialog demo_warning) @ [CallOnTimeout]\<rparr>) \<and>
   tracked (settle (handleContinue throwing_options demo_warning))"
proof -
  have c: "onContinue throwing_options = Throws" "onLogout throwing_options = Throws"
    "onTimeout throwing_options = Throws"
    by (simp_all add: throwing_options_def)
  show ?thesis
    using actions_run_first[of throwing_options demo_warning] c tracked_demo_warning
    by blast
qed

text \<open>
  The claim as stated fails: with the dialog shown and the timeout timer pending, the
  continue decision calls \<^verbatim>\<open>onContinue\<close> before it closes the dialog and before it
  clears and sets the timers; when \<^verbatim>\<open>onContinue\<close> throws, the dialog stays and the old
  timeout timer stays pending.
\<close>

theorem handles_cleared_before_action_counterexample:
  "dialog demo_warning \<and>
   timers demo_warning = [\<lparr>tid = 2, due = 1200, kind = Redirect\<rparr>] \<and>
   trace (settle (handleContinue demo_options demo_warning)) =
     trace demo_warning @
     [CallOnContinue, DialogClosed, ClearTimeout 1, ClearTimeout 2, SetTimeout 3 100 Warn,
      SetTimeout 4 200 Redirect] \<and>
   handleContinue throwing_options demo_warning =
     Uncaught (demo_warning\<lparr>trace := trace demo_warning @ [CallOnContinue]\<rparr>) \<and>
   dialog (settle (handleContinue throwing_options demo_warning)) \<and>
   timers (settle (handleContinue throwing_options demo_warning)) =
     [\<lparr>tid = 2, due = 1200, kind = Redirect\<rparr>]"
  by (simp add: demo_warning_eq handleContinue_def throwing_options_def demo_options_def
      closeDialog_def updateLastResetTime_def startTimers_def clearWarn_def clearRedirect_def
      clearTimeout_def armWarn_def armRedirect_def setTimeout_def host_delay_def toInt32_def Let_def)

end
